theory Spec2Isabelle
  imports Complex_Main
begin

section \<open>Runtime values\<close>

text \<open>
  The session and preference stores of the application are two React providers:
  \<^verbatim>\<open>AuthProvider\<close> (with the helpers of \<^verbatim>\<open>utils/storage.ts\<close>) and
  \<^verbatim>\<open>ThemeProvider\<close>. Both keep their state in memory and persist it through
  \<^verbatim>\<open>AsyncStorage\<close>.

  A JavaScript string is modelled as a \<^typ>\<open>string\<close>, one \<^typ>\<open>char\<close> per code unit
  (the code units below 256), so that \<^verbatim>\<open>s.length\<close> is \<^term>\<open>length s\<close> and the
  falsy string is \<^term>\<open>[] :: string\<close>.

  The value that \<^verbatim>\<open>JSON.parse\<close> returns is a JSON value. A number is a finite value
  (both zeros are \<^term>\<open>Finite 0\<close>) or an infinity (\<^verbatim>\<open>JSON.parse("1e999")\<close>).
\<close>

datatype number = Finite rat | PosInfinity | NegInfinity

datatype json =
    JNull
  | JBool bool
  | JNumber number
  | JString string
  | JArray "json list"
  | JObject "(string \<times> json) list"

text \<open>What \<^verbatim>\<open>if (v)\<close> tests: \<^verbatim>\<open>null\<close>, \<^verbatim>\<open>false\<close>, zero and the empty string are falsy.\<close>

fun truthy :: "json \<Rightarrow> bool" where
  "truthy JNull = False"
| "truthy (JBool b) = b"
| "truthy (JNumber n) = (n \<noteq> Finite 0)"
| "truthy (JString s) = (s \<noteq> [])"
| "truthy (JArray xs) = True"
| "truthy (JObject kvs) = True"

text \<open>
  A thrown value is an \<^verbatim>\<open>Error\<close> with its message, or anything else; a promise settles
  as resolved with a value or as rejected with the thrown value.
\<close>

datatype thrown = Error string | NonError

datatype 'a promise = Resolved 'a | Rejected thrown

subsection \<open>Strings and numbers\<close>

text \<open>\<^verbatim>\<open>s.includes(c)\<close> and \<^verbatim>\<open>s.split(c)\<close> for a separator of one character.\<close>

definition string_includes :: "string \<Rightarrow> char \<Rightarrow> bool" where
  "string_includes s c = (c \<in> set s)"

fun string_split :: "string \<Rightarrow> char \<Rightarrow> string list" where
  "string_split [] sep = [[]]"
| "string_split (c # cs) sep =
     (if c = sep then [] # string_split cs sep
      else (case string_split cs sep of
              [] \<Rightarrow> [[c]]
            | w # ws \<Rightarrow> (c # w) # ws))"

text \<open>\<^verbatim>\<open>n.toString()\<close> for an integer \<open>n\<close> such as \<^verbatim>\<open>Date.now()\<close>: its decimal digits.\<close>

definition digit :: "nat \<Rightarrow> char" where
  "digit d = ''0123456789'' ! d"

function decimal :: "nat \<Rightarrow> string" where
  "decimal n = (if n < 10 then [digit n] else decimal (n div 10) @ [digit (n mod 10)])"
  by pat_completeness auto
termination
  by (relation "measure (\<lambda>n. n)") auto

declare decimal.simps [simp del]

definition toString :: "int \<Rightarrow> string" where
  "toString n = (if n < 0 then CHR ''-'' # decimal (nat (- n)) else decimal (nat n))"

section \<open>The key-value store\<close>

text \<open>
  Modelled from the spec: \<^verbatim>\<open>AsyncStorage\<close> is an external package; the spec gives its
  contract (section 6): \<^verbatim>\<open>get\<close> returns the value or absent and may fail,
  \<^verbatim>\<open>set\<close> and \<^verbatim>\<open>remove\<close> succeed or fail, and \<^verbatim>\<open>remove\<close> succeeds on an absent
  key. The outcome of each call is a parameter: \<^term>\<open>None\<close> when the call succeeds,
  \<^term>\<open>Some e\<close> when its promise rejects with \<open>e\<close>. A write or a removal that fails leaves
  the store as it was.
\<close>

type_synonym storage = "string \<rightharpoonup> string"

definition getItem :: "thrown option \<Rightarrow> storage \<Rightarrow> string \<Rightarrow> string option promise" where
  "getItem failure kv key =
     (case failure of Some e \<Rightarrow> Rejected e | None \<Rightarrow> Resolved (kv key))"

definition setItem ::
  "thrown option \<Rightarrow> storage \<Rightarrow> string \<Rightarrow> string \<Rightarrow> unit promise \<times> storage" where
  "setItem failure kv key v =
     (case failure of Some e \<Rightarrow> (Rejected e, kv) | None \<Rightarrow> (Resolved (), kv(key \<mapsto> v)))"

definition removeItem ::
  "thrown option \<Rightarrow> storage \<Rightarrow> string \<Rightarrow> unit promise \<times> storage" where
  "removeItem failure kv key =
     (case failure of Some e \<Rightarrow> (Rejected e, kv) | None \<Rightarrow> (Resolved (), kv(key := None)))"

section \<open>The types of the session store\<close>

text \<open>
  The interfaces of \<^verbatim>\<open>auth.types\<close>. The field \<^verbatim>\<open>id\<close> of a user is \<open>id'\<close> here.
  \<^verbatim>\<open>SignupCredentials\<close> extends \<^verbatim>\<open>LoginCredentials\<close>. Fields that several records
  share are written with the record's name: \<open>User.email\<close>, \<open>LoginCredentials.email\<close>.

  The field \<^verbatim>\<open>user\<close> of the state has the type \<^verbatim>\<open>User | null\<close>, but the cast
  \<^verbatim>\<open>as User\<close> of \<^verbatim>\<open>loadUserFromStorage\<close> checks nothing: at run time the field
  holds whatever \<^verbatim>\<open>JSON.parse\<close> returned. So the field is a \<^typ>\<open>json\<close> value, with
  \<^term>\<open>JNull\<close> for \<^verbatim>\<open>null\<close>, and a user record is the object \<open>User_json\<close> of its
  three fields.
\<close>

record User =
  id' :: string
  email :: string
  name :: string

definition User_json :: "User \<Rightarrow> json" where
  "User_json u =
     JObject [(''id'', JString (id' u)), (''email'', JString (User.email u)),
              (''name'', JString (User.name u))]"

record AuthState =
  user :: json
  isLoading :: bool
  isAuthenticated :: bool
  isInitializing :: bool

record LoginCredentials =
  email :: string
  password :: string

record SignupCredentials = LoginCredentials +
  name :: string

record AuthResponse =
  success :: bool
  user :: "User option"
  error :: "string option"

section \<open>utils/storage.ts\<close>

definition AUTH_USER_KEY :: string where
  "AUTH_USER_KEY = ''AUTH_USER''"

text \<open>
  \<^verbatim>\<open>JSON.stringify\<close> and \<^verbatim>\<open>JSON.parse\<close> are built-ins of the runtime and parameters
  of the model: partial maps that are \<^term>\<open>None\<close> where the built-in throws. Each helper
  catches whatever its body throws, logs it and resolves.
\<close>

definition saveUserToStorage ::
  "(User \<rightharpoonup> string) \<Rightarrow> thrown option \<Rightarrow> storage \<Rightarrow> User \<Rightarrow> unit promise \<times> storage" where
  "saveUserToStorage stringify failure kv u =
     (case stringify u of
        None \<Rightarrow> (Resolved (), kv)
      | Some userData \<Rightarrow>
          (case setItem failure kv AUTH_USER_KEY userData of
             (Resolved _, kv') \<Rightarrow> (Resolved (), kv')
           | (Rejected e, kv') \<Rightarrow> (Resolved (), kv')))"

definition loadUserFromStorage ::
  "(string \<rightharpoonup> json) \<Rightarrow> thrown option \<Rightarrow> storage \<Rightarrow> json promise" where
  "loadUserFromStorage parse failure kv =
     (case getItem failure kv AUTH_USER_KEY of
        Rejected e \<Rightarrow> Resolved JNull
      | Resolved None \<Rightarrow> Resolved JNull
      | Resolved (Some userData) \<Rightarrow>
          (if userData \<noteq> [] then
             (case parse userData of
                None \<Rightarrow> Resolved JNull
              | Some v \<Rightarrow> Resolved v)
           else Resolved JNull))"

definition removeUserFromStorage :: "thrown option \<Rightarrow> storage \<Rightarrow> unit promise \<times> storage" where
  "removeUserFromStorage failure kv =
     (case removeItem failure kv AUTH_USER_KEY of
        (Resolved _, kv') \<Rightarrow> (Resolved (), kv')
      | (Rejected e, kv') \<Rightarrow> (Resolved (), kv'))"

definition clearAuthStorage :: "thrown option \<Rightarrow> storage \<Rightarrow> unit promise \<times> storage" where
  "clearAuthStorage failure kv =
     (case removeUserFromStorage failure kv of
        (Resolved _, kv') \<Rightarrow> (Resolved (), kv')
      | (Rejected e, kv') \<Rightarrow> (Resolved (), kv'))"

section \<open>The session store: AuthProvider\<close>

text \<open>
  Each operation takes the state and the store at its call and returns its result, the
  states that its calls of \<^verbatim>\<open>setAuthState\<close> produce, in order, and the store it leaves.
  An update \<^verbatim>\<open>setAuthState(prev => ...)\<close> is applied to the state before it. Alerts and
  console output are not part of the state and are left out.
\<close>

definition initialAuthState :: AuthState where
  "initialAuthState =
     \<lparr>AuthState.user = JNull, AuthState.isLoading = False, isAuthenticated = False,
      isInitializing = True\<rparr>"

definition final :: "AuthState \<Rightarrow> AuthState list \<Rightarrow> AuthState" where
  "final s updates = last (s # updates)"

text \<open>
  \<^verbatim>\<open>initializeAuth\<close>, the startup restore. \<open>prev\<close> is the state when the read settles.
\<close>

definition initializeAuth ::
  "(string \<rightharpoonup> json) \<Rightarrow> thrown option \<Rightarrow> storage \<Rightarrow> AuthState \<Rightarrow> AuthState" where
  "initializeAuth parse failure kv prev =
     (case loadUserFromStorage parse failure kv of
        Resolved persistedUser \<Rightarrow>
          (if truthy persistedUser then
             \<lparr>AuthState.user = persistedUser, AuthState.isLoading = False, isAuthenticated = True,
              isInitializing = False\<rparr>
           else prev\<lparr>isInitializing := False\<rparr>)
      | Rejected e \<Rightarrow> prev\<lparr>isInitializing := False\<rparr>)"

text \<open>The \<^verbatim>\<open>catch\<close> block of \<^verbatim>\<open>login\<close>: the result and the state it sets.\<close>

definition login_catch :: "thrown \<Rightarrow> AuthState \<Rightarrow> AuthResponse \<times> AuthState" where
  "login_catch e prev =
     (let errorMessage = (case e of Error message \<Rightarrow> message | NonError \<Rightarrow> ''Login failed'')
      in (\<lparr>success = False, AuthResponse.user = None, error = Some errorMessage\<rparr>,
          prev\<lparr>AuthState.isLoading := False\<rparr>))"

text \<open>
  \<^verbatim>\<open>login\<close>. \<open>now\<close> is what \<^verbatim>\<open>Date.now()\<close> returns after the simulated delay.
\<close>

definition login ::
  "(User \<rightharpoonup> string) \<Rightarrow> int \<Rightarrow> thrown option \<Rightarrow> LoginCredentials \<Rightarrow>
   AuthState \<times> storage \<Rightarrow> AuthResponse \<times> AuthState list \<times> storage" where
  "login stringify now failure credentials = (\<lambda>(s, kv).
     let s1 = s\<lparr>AuthState.isLoading := True\<rparr> in
     if LoginCredentials.email credentials = [] \<or> password credentials = [] then
       (let (r, s2) = login_catch (Error ''Email and password are required'') s1
        in (r, [s1, s2], kv))
     else if \<not> string_includes (LoginCredentials.email credentials) CHR ''@'' then
       (let (r, s2) = login_catch (Error ''Please enter a valid email'') s1
        in (r, [s1, s2], kv))
     else
       (let mockUser =
              \<lparr>id' = toString now,
               User.email = LoginCredentials.email credentials,
               User.name = string_split (LoginCredentials.email credentials) CHR ''@'' ! 0\<rparr>;
            s2 = \<lparr>AuthState.user = User_json mockUser, AuthState.isLoading = False,
                  isAuthenticated = True, isInitializing = False\<rparr>
        in (case saveUserToStorage stringify failure kv mockUser of
              (Resolved _, kv') \<Rightarrow>
                (\<lparr>success = True, AuthResponse.user = Some mockUser, error = None\<rparr>,
                 [s1, s2], kv')
            | (Rejected e, kv') \<Rightarrow>
                (let (r, s3) = login_catch e s2 in (r, [s1, s2, s3], kv')))))"

definition signup_catch :: "thrown \<Rightarrow> AuthState \<Rightarrow> AuthResponse \<times> AuthState" where
  "signup_catch e prev =
     (let errorMessage = (case e of Error message \<Rightarrow> message | NonError \<Rightarrow> ''Signup failed'')
      in (\<lparr>success = False, AuthResponse.user = None, error = Some errorMessage\<rparr>,
          prev\<lparr>AuthState.isLoading := False\<rparr>))"

definition signup ::
  "(User \<rightharpoonup> string) \<Rightarrow> int \<Rightarrow> thrown option \<Rightarrow> SignupCredentials \<Rightarrow>
   AuthState \<times> storage \<Rightarrow> AuthResponse \<times> AuthState list \<times> storage" where
  "signup stringify now failure credentials = (\<lambda>(s, kv).
     let s1 = s\<lparr>AuthState.isLoading := True\<rparr> in
     if LoginCredentials.email credentials = [] \<or> password credentials = []
        \<or> SignupCredentials.name credentials = [] then
       (let (r, s2) = signup_catch (Error ''All fields are required'') s1
        in (r, [s1, s2], kv))
     else if \<not> string_includes (LoginCredentials.email credentials) CHR ''@'' then
       (let (r, s2) = signup_catch (Error ''Please enter a valid email'') s1
        in (r, [s1, s2], kv))
     else if length (password credentials) < 6 then
       (let (r, s2) = signup_catch (Error ''Password must be at least 6 characters'') s1
        in (r, [s1, s2], kv))
     else
       (let mockUser =
              \<lparr>id' = toString now,
               User.email = LoginCredentials.email credentials,
               User.name = SignupCredentials.name credentials\<rparr>;
            s2 = \<lparr>AuthState.user = User_json mockUser, AuthState.isLoading = False,
                  isAuthenticated = True, isInitializing = False\<rparr>
        in (case saveUserToStorage stringify failure kv mockUser of
              (Resolved _, kv') \<Rightarrow>
                (\<lparr>success = True, AuthResponse.user = Some mockUser, error = None\<rparr>,
                 [s1, s2], kv')
            | (Rejected e, kv') \<Rightarrow>
                (let (r, s3) = signup_catch e s2 in (r, [s1, s2, s3], kv')))))"

text \<open>
  \<^verbatim>\<open>logout\<close> has no \<^verbatim>\<open>try\<close>: were \<^verbatim>\<open>clearAuthStorage\<close> to reject, \<^verbatim>\<open>logout\<close>
  would reject with the same value before it sets the state.
\<close>

definition logout ::
  "thrown option \<Rightarrow> AuthState \<times> storage \<Rightarrow> unit promise \<times> AuthState list \<times> storage" where
  "logout failure = (\<lambda>(s, kv).
     case clearAuthStorage failure kv of
       (Resolved _, kv') \<Rightarrow>
         (Resolved (),
          [\<lparr>AuthState.user = JNull, AuthState.isLoading = False, isAuthenticated = False,
            isInitializing = False\<rparr>],
          kv')
     | (Rejected e, kv') \<Rightarrow> (Rejected e, [], kv'))"

section \<open>The preference store: ThemeProvider\<close>

datatype ThemeName = light | dark


text \<open>The two \<^verbatim>\<open>useState\<close> cells of the provider and their initial values.\<close>

record ThemeState =
  theme :: ThemeName
  isLoading :: bool

definition initialThemeState :: ThemeState where
  "initialThemeState = \<lparr>theme = light, ThemeState.isLoading = True\<rparr>"

definition THEME_STORAGE_KEY :: string where
  "THEME_STORAGE_KEY = ''@app_theme''"

definition loadTheme :: "thrown option \<Rightarrow> storage \<Rightarrow> ThemeState \<Rightarrow> ThemeState" where
  "loadTheme failure kv t =
     (let t1 =
        (case getItem failure kv THEME_STORAGE_KEY of
           Resolved savedTheme \<Rightarrow>
             (case savedTheme of
                None \<Rightarrow> t
              | Some v \<Rightarrow>
                  (if v \<noteq> [] \<and> v = ''light'' then t\<lparr>theme := light\<rparr>
                   else if v \<noteq> [] \<and> v = ''dark'' then t\<lparr>theme := dark\<rparr>
                   else t))
         | Rejected e \<Rightarrow> t)
      in t1\<lparr>ThemeState.isLoading := False\<rparr>)"



section \<open>The invariant of the session state\<close>

text \<open>
  The state is authenticated exactly when it holds a user, that is, when the field
  \<^verbatim>\<open>user\<close> is not \<^verbatim>\<open>null\<close>.
\<close>

definition AuthState_invariant :: "AuthState \<Rightarrow> bool" where
  "AuthState_invariant s = (isAuthenticated s = (AuthState.user s \<noteq> JNull))"

text \<open>The value of a decimal digit; used only to read a decimal string back.\<close>

definition digit_value :: "char \<Rightarrow> nat" where
  "digit_value c = of_char c - 48"

section \<open>Facts about the helpers\<close>

lemma string_split_nonempty: "string_split s sep \<noteq> []"
  by (induction s) (auto split: list.splits)

text \<open>The first piece of a split is the text before the first separator.\<close>

lemma string_split_first: "string_split s sep ! 0 = takeWhile (\<lambda>c. c \<noteq> sep) s"
proof (induction s)
  case Nil
  then show ?case by simp
next
  case (Cons c cs)
  then show ?case
    using string_split_nonempty [of cs sep] by (auto split: list.splits)
qed

lemma toString_example: "toString 1700000000000 = ''1700000000000''"
  by (simp add: toString_def decimal.simps digit_def)

subsection \<open>Decimal strings determine their number\<close>

lemma digit_value_digit: "d < 10 \<Longrightarrow> digit_value (digit d) = d"
proof -
  assume "d < 10"
  then have "d \<in> {0, 1, 2, 3, 4, 5, 6, 7, 8, 9}" by auto
  then show ?thesis
    by (auto simp: digit_value_def digit_def)
qed

lemma digit_not_minus: "d < 10 \<Longrightarrow> digit d \<noteq> CHR ''-''"
proof -
  assume "d < 10"
  then have "d \<in> {0, 1, 2, 3, 4, 5, 6, 7, 8, 9}" by auto
  then show ?thesis
    by (auto simp: digit_def)
qed

lemma decimal_value: "foldl (\<lambda>a c. 10 * a + digit_value c) 0 (decimal n) = n"
proof (induction n rule: decimal.induct)
  case (1 n)
  show ?case
  proof (cases "n < 10")
    case True
    then show ?thesis
      by (subst decimal.simps) (simp add: digit_value_digit)
  next
    case False
    with 1 show ?thesis
      by (subst decimal.simps) (simp add: digit_value_digit)
  qed
qed

lemma decimal_inj: "decimal m = decimal n \<Longrightarrow> m = n"
  by (metis decimal_value)

lemma hd_decimal: "decimal n \<noteq> [] \<and> hd (decimal n) \<noteq> CHR ''-''"
proof (induction n rule: decimal.induct)
  case (1 n)
  show ?case
  proof (cases "n < 10")
    case True
    then show ?thesis
      by (subst (1 2) decimal.simps) (simp add: digit_not_minus)
  next
    case False
    with 1 show ?thesis
      by (subst (1 2) decimal.simps) simp
  qed
qed

lemma toString_inj: "toString a = toString b \<longleftrightarrow> a = b"
proof
  assume eq: "toString a = toString b"
  show "a = b"
  proof (cases "a < 0"; cases "b < 0")
    assume "a < 0" "b < 0"
    with eq have "nat (- a) = nat (- b)"
      by (simp add: toString_def decimal_inj)
    with \<open>a < 0\<close> \<open>b < 0\<close> show ?thesis by simp
  next
    assume "a < 0" "\<not> b < 0"
    with eq have "CHR ''-'' # decimal (nat (- a)) = decimal (nat b)"
      by (simp add: toString_def)
    then have "hd (decimal (nat b)) = CHR ''-''"
      by (metis list.sel(1))
    with hd_decimal [of "nat b"] show ?thesis by simp
  next
    assume "\<not> a < 0" "b < 0"
    with eq have "decimal (nat a) = CHR ''-'' # decimal (nat (- b))"
      by (simp add: toString_def)
    then have "hd (decimal (nat a)) = CHR ''-''"
      by simp
    with hd_decimal [of "nat a"] show ?thesis by simp
  next
    assume "\<not> a < 0" "\<not> b < 0"
    with eq have "nat a = nat b"
      by (simp add: toString_def decimal_inj)
    with \<open>\<not> a < 0\<close> \<open>\<not> b < 0\<close> show ?thesis by simp
  qed
qed simp

subsection \<open>The storage helpers never reject\<close>

lemma saveUserToStorage_resolves: "fst (saveUserToStorage stringify failure kv u) = Resolved ()"
  by (simp add: saveUserToStorage_def setItem_def split: option.splits)

lemma saveUserToStorage_pair:
  "saveUserToStorage stringify failure kv u =
     (Resolved (), snd (saveUserToStorage stringify failure kv u))"
  using saveUserToStorage_resolves [of stringify failure kv u]
  by (simp add: prod_eq_iff)

lemma clearAuthStorage_eq:
  "clearAuthStorage failure kv =
     (Resolved (), case failure of None \<Rightarrow> kv(AUTH_USER_KEY := None) | Some e \<Rightarrow> kv)"
  by (simp add: clearAuthStorage_def removeUserFromStorage_def removeItem_def
      split: option.splits)

lemma loadUserFromStorage_failure:
  "loadUserFromStorage parse (Some e) kv = Resolved JNull"
  by (simp add: loadUserFromStorage_def getItem_def)

subsection \<open>What each operation of the session store returns\<close>

lemma login_invalid:
  assumes "LoginCredentials.email credentials = [] \<or> password credentials = []
           \<or> \<not> string_includes (LoginCredentials.email credentials) CHR ''@''"
  shows "login stringify now failure credentials (s, kv) =
           (\<lparr>success = False, AuthResponse.user = None,
             error = Some (if LoginCredentials.email credentials = [] \<or> password credentials = []
                           then ''Email and password are required''
                           else ''Please enter a valid email'')\<rparr>,
            [s\<lparr>AuthState.isLoading := True\<rparr>, s\<lparr>AuthState.isLoading := False\<rparr>], kv)"
  using assms by (auto simp: login_def login_catch_def Let_def)

lemma login_valid:
  assumes "LoginCredentials.email credentials \<noteq> []" "password credentials \<noteq> []"
    "string_includes (LoginCredentials.email credentials) CHR ''@''"
    and u: "u = \<lparr>id' = toString now,
               User.email = LoginCredentials.email credentials,
               User.name = takeWhile (\<lambda>c. c \<noteq> CHR ''@'') (LoginCredentials.email credentials)\<rparr>"
  shows "login stringify now failure credentials (s, kv) =
           (\<lparr>success = True, AuthResponse.user = Some u, error = None\<rparr>,
            [s\<lparr>AuthState.isLoading := True\<rparr>,
             \<lparr>AuthState.user = User_json u, AuthState.isLoading = False,
              isAuthenticated = True, isInitializing = False\<rparr>],
            snd (saveUserToStorage stringify failure kv u))"
proof -
  let ?s1 = "s\<lparr>AuthState.isLoading := True\<rparr>"
  let ?s2 = "\<lparr>AuthState.user = User_json u, AuthState.isLoading = False,
              isAuthenticated = True, isInitializing = False\<rparr>"
  let ?ok = "\<lparr>success = True, AuthResponse.user = Some u, error = None\<rparr>"
  have sv: "saveUserToStorage stringify failure kv u =
      (Resolved (), snd (saveUserToStorage stringify failure kv u))"
    by (rule saveUserToStorage_pair)
  have "login stringify now failure credentials (s, kv) =
      (case saveUserToStorage stringify failure kv u of
         (Resolved _, kv') \<Rightarrow> (?ok, [?s1, ?s2], kv')
       | (Rejected e, kv') \<Rightarrow>
           (let (r, s3) = login_catch e ?s2 in (r, [?s1, ?s2, s3], kv')))"
    unfolding u using assms(1-3) by (simp add: login_def Let_def string_split_first)
  also have "\<dots> = (?ok, [?s1, ?s2], snd (saveUserToStorage stringify failure kv u))"
    by (subst sv) simp
  finally show ?thesis .
qed

lemma signup_invalid:
  assumes "LoginCredentials.email credentials = [] \<or> password credentials = []
           \<or> SignupCredentials.name credentials = []
           \<or> \<not> string_includes (LoginCredentials.email credentials) CHR ''@''
           \<or> length (password credentials) < 6"
  shows "signup stringify now failure credentials (s, kv) =
           (\<lparr>success = False, AuthResponse.user = None,
             error = Some
               (if LoginCredentials.email credentials = [] \<or> password credentials = []
                   \<or> SignupCredentials.name credentials = []
                then ''All fields are required''
                else if \<not> string_includes (LoginCredentials.email credentials) CHR ''@''
                then ''Please enter a valid email''
                else ''Password must be at least 6 characters'')\<rparr>,
            [s\<lparr>AuthState.isLoading := True\<rparr>, s\<lparr>AuthState.isLoading := False\<rparr>], kv)"
  using assms by (auto simp: signup_def signup_catch_def Let_def)

lemma signup_valid:
  assumes "LoginCredentials.email credentials \<noteq> []" "password credentials \<noteq> []"
    "SignupCredentials.name credentials \<noteq> []"
    "string_includes (LoginCredentials.email credentials) CHR ''@''"
    "\<not> length (password credentials) < 6"
    and u: "u = \<lparr>id' = toString now,
               User.email = LoginCredentials.email credentials,
               User.name = SignupCredentials.name credentials\<rparr>"
  shows "signup stringify now failure credentials (s, kv) =
           (\<lparr>success = True, AuthResponse.user = Some u, error = None\<rparr>,
            [s\<lparr>AuthState.isLoading := True\<rparr>,
             \<lparr>AuthState.user = User_json u, AuthState.isLoading = False,
              isAuthenticated = True, isInitializing = False\<rparr>],
            snd (saveUserToStorage stringify failure kv u))"
proof -
  let ?s1 = "s\<lparr>AuthState.isLoading := True\<rparr>"
  let ?s2 = "\<lparr>AuthState.user = User_json u, AuthState.isLoading = False,
              isAuthenticated = True, isInitializing = False\<rparr>"
  let ?ok = "\<lparr>success = True, AuthResponse.user = Some u, error = None\<rparr>"
  have sv: "saveUserToStorage stringify failure kv u =
      (Resolved (), snd (saveUserToStorage stringify failure kv u))"
    by (rule saveUserToStorage_pair)
  have "signup stringify now failure credentials (s, kv) =
      (case saveUserToStorage stringify failure kv u of
         (Resolved _, kv') \<Rightarrow> (?ok, [?s1, ?s2], kv')
       | (Rejected e, kv') \<Rightarrow>
           (let (r, s3) = signup_catch e ?s2 in (r, [?s1, ?s2, s3], kv')))"
    unfolding u using assms(1-5) by (simp add: signup_def Let_def)
  also have "\<dots> = (?ok, [?s1, ?s2], snd (saveUserToStorage stringify failure kv u))"
    by (subst sv) simp
  finally show ?thesis .
qed

lemma logout_eq:
  "logout failure (s, kv) =
     (Resolved (),
      [\<lparr>AuthState.user = JNull, AuthState.isLoading = False, isAuthenticated = False,
        isInitializing = False\<rparr>],
      case failure of None \<Rightarrow> kv(AUTH_USER_KEY := None) | Some e \<Rightarrow> kv)"
  by (simp add: logout_def clearAuthStorage_eq)

text \<open>
  The ids of two manufactured users agree exactly when the two readings of the clock
  agree.
\<close>

lemma ids_equal_iff_same_clock:
  assumes "LoginCredentials.email c1 \<noteq> []" "password c1 \<noteq> []"
    "string_includes (LoginCredentials.email c1) CHR ''@''"
    "LoginCredentials.email c2 \<noteq> []" "password c2 \<noteq> []"
    "SignupCredentials.name c2 \<noteq> []"
    "string_includes (LoginCredentials.email c2) CHR ''@''"
    "\<not> length (password c2) < 6"
  shows "map_option id' (AuthResponse.user (fst (login stringify1 now1 failure1 c1 (s1, kv1))))
         = map_option id' (AuthResponse.user (fst (signup stringify2 now2 failure2 c2 (s2, kv2))))
         \<longleftrightarrow> now1 = now2"
  using login_valid [OF assms(1-3) refl, of stringify1 now1 failure1 s1 kv1]
    signup_valid [OF assms(4-8) refl, of stringify2 now2 failure2 s2 kv2]
  by (simp add: toString_inj)

subsection \<open>Each update keeps the invariant\<close>

lemma final_in_updates:
  "P s \<Longrightarrow> list_all P updates \<Longrightarrow> P (final s updates)"
  by (cases updates rule: rev_cases) (simp_all add: final_def)

lemma invariant_initializeAuth:
  "AuthState_invariant s \<Longrightarrow> AuthState_invariant (initializeAuth parse failure kv s)"
  by (auto simp: AuthState_invariant_def initializeAuth_def split: promise.splits)

lemma invariant_login:
  "AuthState_invariant s \<Longrightarrow>
   list_all AuthState_invariant (fst (snd (login stringify now failure credentials (s, kv))))"
  by (auto simp: AuthState_invariant_def login_def login_catch_def Let_def User_json_def
      split: promise.splits prod.splits)

lemma invariant_signup:
  "AuthState_invariant s \<Longrightarrow>
   list_all AuthState_invariant (fst (snd (signup stringify now failure credentials (s, kv))))"
  by (auto simp: AuthState_invariant_def signup_def signup_catch_def Let_def User_json_def
      split: promise.splits prod.splits)

lemma invariant_logout:
  "list_all AuthState_invariant (fst (snd (logout failure (s, kv))))"
  by (simp add: AuthState_invariant_def logout_eq)

section \<open>The session store\<close>

text \<open>
  Claim C1. The invariant \<open>isAuthenticated = (user is present)\<close> holds in the initial
  state, and from a state that satisfies it, it holds of the state after the startup
  restore, of every state that a call of \<^verbatim>\<open>login\<close>, \<^verbatim>\<open>signup\<close> or \<^verbatim>\<open>logout\<close> sets
  (whether the call succeeds or fails, and whatever the store does), and so of the state
  after the call.
\<close>

theorem AuthState_invariant_preserved:
  assumes "AuthState_invariant s"
  shows "AuthState_invariant initialAuthState
    \<and> AuthState_invariant (initializeAuth parse readFailure kv s)
    \<and> list_all AuthState_invariant
         (fst (snd (login stringify now writeFailure loginCredentials (s, kv))))
    \<and> AuthState_invariant
         (final s (fst (snd (login stringify now writeFailure loginCredentials (s, kv)))))
    \<and> list_all AuthState_invariant
         (fst (snd (signup stringify now writeFailure signupCredentials (s, kv))))
    \<and> AuthState_invariant
         (final s (fst (snd (signup stringify now writeFailure signupCredentials (s, kv)))))
    \<and> list_all AuthState_invariant (fst (snd (logout removeFailure (s, kv))))
    \<and> AuthState_invariant (final s (fst (snd (logout removeFailure (s, kv)))))"
proof -
  have i: "AuthState_invariant initialAuthState"
    by (simp add: AuthState_invariant_def initialAuthState_def)
  note r = invariant_initializeAuth [OF assms, of parse readFailure kv]
  note l = invariant_login [OF assms, of stringify now writeFailure loginCredentials kv]
  note g = invariant_signup [OF assms, of stringify now writeFailure signupCredentials kv]
  note o = invariant_logout [of removeFailure s kv]
  show ?thesis
    using i r l g o final_in_updates [OF assms l] final_in_updates [OF assms g]
      final_in_updates [OF assms o]
    by simp
qed

text \<open>
  The invariant at work: from the initial state, a restore that finds nothing, a login
  that succeeds, a signup that fails and a logout.
\<close>

theorem AuthState_invariant_preserved_witness:
  "AuthState_invariant initialAuthState
   \<and> AuthState_invariant (initializeAuth Map.empty None Map.empty initialAuthState)
   \<and> AuthState_invariant
        (final initialAuthState (fst (snd (login Map.empty 1700000000000 None
           \<lparr>LoginCredentials.email = ''a@b.com'', password = ''x''\<rparr>
           (initialAuthState, Map.empty)))))
   \<and> AuthState_invariant
        (final initialAuthState (fst (snd (signup Map.empty 1700000000000 None
           \<lparr>LoginCredentials.email = ''jo@x.com'', password = ''abc'',
             SignupCredentials.name = ''Jo''\<rparr>
           (initialAuthState, Map.empty)))))
   \<and> AuthState_invariant
        (final initialAuthState (fst (snd (logout None (initialAuthState, Map.empty)))))"
proof -
  have i: "AuthState_invariant initialAuthState"
    by (simp add: AuthState_invariant_def initialAuthState_def)
  show ?thesis
    using AuthState_invariant_preserved [OF i, where parse = Map.empty and readFailure = None
        and kv = Map.empty and stringify = Map.empty and now = 1700000000000
        and writeFailure = None and removeFailure = None
        and loginCredentials = "\<lparr>LoginCredentials.email = ''a@b.com'', password = ''x''\<rparr>"
        and signupCredentials = "\<lparr>LoginCredentials.email = ''jo@x.com'', password = ''abc'',
             SignupCredentials.name = ''Jo''\<rparr>"]
    by simp
qed

text \<open>
  Claim C2, as the code has it. For a login input whose email is empty, whose password is
  empty, or whose email has no \<open>@\<close>, \<^verbatim>\<open>login\<close> returns a failure with the message
  \<open>Email and password are required\<close> or \<open>Please enter a valid email\<close>. It does set
  \<^verbatim>\<open>isLoading\<close>: to true before it validates, and back to false in its \<^verbatim>\<open>catch\<close>.
  These are its only two updates, so \<^verbatim>\<open>user\<close>, \<^verbatim>\<open>isAuthenticated\<close> and
  \<^verbatim>\<open>isInitializing\<close> are those of the state before the call at every point, the state
  after the call is the state before it with \<^verbatim>\<open>isLoading\<close> false, and the store is
  untouched.
\<close>

theorem login_validation_failure:
  assumes "LoginCredentials.email credentials = [] \<or> password credentials = []
           \<or> \<not> string_includes (LoginCredentials.email credentials) CHR ''@''"
  shows "login stringify now failure credentials (s, kv) =
           (\<lparr>success = False, AuthResponse.user = None,
             error = Some (if LoginCredentials.email credentials = [] \<or> password credentials = []
                           then ''Email and password are required''
                           else ''Please enter a valid email'')\<rparr>,
            [s\<lparr>AuthState.isLoading := True\<rparr>, s\<lparr>AuthState.isLoading := False\<rparr>], kv)
         \<and> list_all (\<lambda>s'. AuthState.user s' = AuthState.user s
                          \<and> isAuthenticated s' = isAuthenticated s
                          \<and> isInitializing s' = isInitializing s)
              (fst (snd (login stringify now failure credentials (s, kv))))
         \<and> final s (fst (snd (login stringify now failure credentials (s, kv))))
              = s\<lparr>AuthState.isLoading := False\<rparr>"
  unfolding login_invalid [OF assms] by (simp add: final_def)

theorem login_validation_failure_witness:
  "login Map.empty 1700000000000 None \<lparr>LoginCredentials.email = ''ab.com'', password = ''x''\<rparr>
     (\<lparr>AuthState.user = JNull, AuthState.isLoading = False, isAuthenticated = False,
       isInitializing = False\<rparr>, Map.empty)
   = (\<lparr>success = False, AuthResponse.user = None, error = Some ''Please enter a valid email''\<rparr>,
      [\<lparr>AuthState.user = JNull, AuthState.isLoading = True, isAuthenticated = False,
        isInitializing = False\<rparr>,
       \<lparr>AuthState.user = JNull, AuthState.isLoading = False, isAuthenticated = False,
        isInitializing = False\<rparr>],
      Map.empty)"
  using login_validation_failure [where credentials =
      "\<lparr>LoginCredentials.email = ''ab.com'', password = ''x''\<rparr>"
      and stringify = Map.empty and now = 1700000000000 and failure = None
      and s = "\<lparr>AuthState.user = JNull, AuthState.isLoading = False, isAuthenticated = False,
       isInitializing = False\<rparr>" and kv = Map.empty]
  by (simp add: string_includes_def)

text \<open>
  Claim C2 as stated fails. On the empty email, the first state that the call sets has
  \<^verbatim>\<open>isLoading\<close> true where the state before the call has it false; and when the state
  before the call has \<^verbatim>\<open>isLoading\<close> true (another operation is in flight), the state
  after the call has it false.
\<close>

theorem login_validation_sets_isLoading:
  "AuthState.isLoading (hd (fst (snd
     (login Map.empty 1700000000000 None \<lparr>LoginCredentials.email = '''', password = ''x''\<rparr>
       (\<lparr>AuthState.user = JNull, AuthState.isLoading = False, isAuthenticated = False,
         isInitializing = False\<rparr>, Map.empty))))) = True
   \<and> success (fst
     (login Map.empty 1700000000000 None \<lparr>LoginCredentials.email = '''', password = ''x''\<rparr>
       (\<lparr>AuthState.user = JNull, AuthState.isLoading = False, isAuthenticated = False,
         isInitializing = False\<rparr>, Map.empty))) = False
   \<and> final \<lparr>AuthState.user = JNull, AuthState.isLoading = True, isAuthenticated = False,
         isInitializing = False\<rparr>
       (fst (snd
     (login Map.empty 1700000000000 None \<lparr>LoginCredentials.email = '''', password = ''x''\<rparr>
       (\<lparr>AuthState.user = JNull, AuthState.isLoading = True, isAuthenticated = False,
         isInitializing = False\<rparr>, Map.empty))))
     \<noteq> \<lparr>AuthState.user = JNull, AuthState.isLoading = True, isAuthenticated = False,
         isInitializing = False\<rparr>"
  by (simp add: login_def login_catch_def Let_def final_def)

text \<open>
  Claim C5. For a login input with a non-empty email that contains \<open>@\<close> and a non-empty
  password, \<^verbatim>\<open>login\<close> returns success with a user whose email is the input's and whose
  name is the email up to its first \<open>@\<close> (its id is the clock reading in decimal); the
  state after the call holds that user, with \<^verbatim>\<open>isAuthenticated\<close> true and
  \<^verbatim>\<open>isLoading\<close> false. Neither a failing write nor a failing \<^verbatim>\<open>JSON.stringify\<close>
  changes this.
\<close>

theorem login_success:
  assumes "LoginCredentials.email credentials \<noteq> []" "password credentials \<noteq> []"
    "string_includes (LoginCredentials.email credentials) CHR ''@''"
  shows "fst (login stringify now failure credentials (s, kv)) =
           \<lparr>success = True,
            AuthResponse.user = Some \<lparr>id' = toString now,
              User.email = LoginCredentials.email credentials,
              User.name = takeWhile (\<lambda>c. c \<noteq> CHR ''@'') (LoginCredentials.email credentials)\<rparr>,
            error = None\<rparr>
         \<and> final s (fst (snd (login stringify now failure credentials (s, kv)))) =
           \<lparr>AuthState.user = User_json \<lparr>id' = toString now,
              User.email = LoginCredentials.email credentials,
              User.name = takeWhile (\<lambda>c. c \<noteq> CHR ''@'') (LoginCredentials.email credentials)\<rparr>,
            AuthState.isLoading = False, isAuthenticated = True, isInitializing = False\<rparr>"
  unfolding login_valid [OF assms refl] by (simp add: final_def)

text \<open>The spec's example: the email \<open>a@b.com\<close> and the password \<open>x\<close>.\<close>

theorem login_success_witness:
  \<open>fst (login [\<lparr>id' = ''1700000000000'', User.email = ''a@b.com'', User.name = ''a''\<rparr>
               \<mapsto> ''{"id":"1700000000000","email":"a@b.com","name":"a"}'']
         1700000000000 None \<lparr>LoginCredentials.email = ''a@b.com'', password = ''x''\<rparr>
         (\<lparr>AuthState.user = JNull, AuthState.isLoading = False, isAuthenticated = False,
           isInitializing = False\<rparr>, Map.empty))
   = \<lparr>success = True,
      AuthResponse.user =
        Some \<lparr>id' = ''1700000000000'', User.email = ''a@b.com'', User.name = ''a''\<rparr>,
      error = None\<rparr>
   \<and> final \<lparr>AuthState.user = JNull, AuthState.isLoading = False, isAuthenticated = False,
           isInitializing = False\<rparr>
       (fst (snd (login [\<lparr>id' = ''1700000000000'', User.email = ''a@b.com'', User.name = ''a''\<rparr>
               \<mapsto> ''{"id":"1700000000000","email":"a@b.com","name":"a"}'']
         1700000000000 None \<lparr>LoginCredentials.email = ''a@b.com'', password = ''x''\<rparr>
         (\<lparr>AuthState.user = JNull, AuthState.isLoading = False, isAuthenticated = False,
           isInitializing = False\<rparr>, Map.empty))))
   = \<lparr>AuthState.user = JObject [(''id'', JString ''1700000000000''),
         (''email'', JString ''a@b.com''), (''name'', JString ''a'')],
       AuthState.isLoading = False, isAuthenticated = True, isInitializing = False\<rparr>\<close>
  using login_success [where credentials =
      "\<lparr>LoginCredentials.email = ''a@b.com'', password = ''x''\<rparr>"
      and now = 1700000000000 and failure = None and kv = Map.empty
      and s = "\<lparr>AuthState.user = JNull, AuthState.isLoading = False, isAuthenticated = False,
             isInitializing = False\<rparr>"
      and stringify = \<open>[\<lparr>id' = ''1700000000000'', User.email = ''a@b.com'', User.name = ''a''\<rparr>
               \<mapsto> ''{"id":"1700000000000","email":"a@b.com","name":"a"}'']\<close>]
  by (simp add: string_includes_def toString_example User_json_def)

text \<open>
  Claim C6, as the code has it. For a signup input with a name, with an email that
  contains \<open>@\<close>, and with a password shorter than 6, \<^verbatim>\<open>signup\<close> returns a failure, and
  \<^verbatim>\<open>user\<close> and \<^verbatim>\<open>isAuthenticated\<close> are those of the state before the call at every
  point. The message is about the length, \<open>Password must be at least 6 characters\<close>,
  when the password is not empty; for the empty password the check of the required fields
  comes first and the message is \<open>All fields are required\<close>.
\<close>

theorem signup_short_password:
  assumes "SignupCredentials.name credentials \<noteq> []"
    "LoginCredentials.email credentials \<noteq> []"
    "string_includes (LoginCredentials.email credentials) CHR ''@''"
    "length (password credentials) < 6"
  shows "fst (signup stringify now failure credentials (s, kv)) =
           \<lparr>success = False, AuthResponse.user = None,
            error = Some (if password credentials = [] then ''All fields are required''
                          else ''Password must be at least 6 characters'')\<rparr>
         \<and> list_all (\<lambda>s'. AuthState.user s' = AuthState.user s
                          \<and> isAuthenticated s' = isAuthenticated s)
              (fst (snd (signup stringify now failure credentials (s, kv))))
         \<and> snd (snd (signup stringify now failure credentials (s, kv))) = kv"
proof -
  have "LoginCredentials.email credentials = [] \<or> password credentials = []
           \<or> SignupCredentials.name credentials = []
           \<or> \<not> string_includes (LoginCredentials.email credentials) CHR ''@''
           \<or> length (password credentials) < 6"
    using assms(4) by simp
  from signup_invalid [OF this] show ?thesis
    using assms(1-3) by simp
qed

theorem signup_short_password_witness:
  "fst (signup Map.empty 1700000000000 None
     \<lparr>LoginCredentials.email = ''jo@x.com'', password = ''abcde'', SignupCredentials.name = ''Jo''\<rparr>
     (\<lparr>AuthState.user = JNull, AuthState.isLoading = False, isAuthenticated = False,
       isInitializing = False\<rparr>, Map.empty))
   = \<lparr>success = False, AuthResponse.user = None,
      error = Some ''Password must be at least 6 characters''\<rparr>"
  using signup_short_password [where credentials =
      "\<lparr>LoginCredentials.email = ''jo@x.com'', password = ''abcde'',
        SignupCredentials.name = ''Jo''\<rparr>"
      and stringify = Map.empty and now = 1700000000000 and failure = None
      and s = "\<lparr>AuthState.user = JNull, AuthState.isLoading = False, isAuthenticated = False,
       isInitializing = False\<rparr>" and kv = Map.empty]
  by (simp add: string_includes_def)

text \<open>
  Claim C6 as stated fails on the empty password: its length is less than 6, the name
  and the email are well-formed, and the message is \<open>All fields are required\<close>, which
  says nothing about a length.
\<close>

theorem signup_empty_password_message:
  "length (password \<lparr>LoginCredentials.email = ''jo@x.com'', password = '''',
      SignupCredentials.name = ''Jo''\<rparr>) < 6
   \<and> fst (signup Map.empty 1700000000000 None
       \<lparr>LoginCredentials.email = ''jo@x.com'', password = '''', SignupCredentials.name = ''Jo''\<rparr>
       (\<lparr>AuthState.user = JNull, AuthState.isLoading = False, isAuthenticated = False,
         isInitializing = False\<rparr>, Map.empty))
     = \<lparr>success = False, AuthResponse.user = None, error = Some ''All fields are required''\<rparr>"
  by (simp add: signup_def signup_catch_def Let_def)

text \<open>
  Claim C8, as the code has it by design. For a signup input whose name is the empty
  string, \<^verbatim>\<open>signup\<close> returns a failure with the message \<open>All fields are required\<close>
  (the first check wins). It sets \<^verbatim>\<open>isLoading\<close> to true before the check and back to
  false after it, and changes nothing else in the state or in the store.
\<close>

theorem signup_empty_name:
  assumes "SignupCredentials.name credentials = []"
  shows "signup stringify now failure credentials (s, kv) =
           (\<lparr>success = False, AuthResponse.user = None,
             error = Some ''All fields are required''\<rparr>,
            [s\<lparr>AuthState.isLoading := True\<rparr>, s\<lparr>AuthState.isLoading := False\<rparr>], kv)"
proof -
  have "LoginCredentials.email credentials = [] \<or> password credentials = []
           \<or> SignupCredentials.name credentials = []
           \<or> \<not> string_includes (LoginCredentials.email credentials) CHR ''@''
           \<or> length (password credentials) < 6"
    using assms by simp
  from signup_invalid [OF this] show ?thesis
    using assms by simp
qed

theorem signup_empty_name_witness:
  "signup Map.empty 1700000000000 None
     \<lparr>LoginCredentials.email = ''jo@x.com'', password = ''abcdef'', SignupCredentials.name = ''''\<rparr>
     (\<lparr>AuthState.user = JNull, AuthState.isLoading = False, isAuthenticated = False,
       isInitializing = False\<rparr>, Map.empty)
   = (\<lparr>success = False, AuthResponse.user = None, error = Some ''All fields are required''\<rparr>,
      [\<lparr>AuthState.user = JNull, AuthState.isLoading = True, isAuthenticated = False,
        isInitializing = False\<rparr>,
       \<lparr>AuthState.user = JNull, AuthState.isLoading = False, isAuthenticated = False,
        isInitializing = False\<rparr>],
      Map.empty)"
  using signup_empty_name [where credentials =
      "\<lparr>LoginCredentials.email = ''jo@x.com'', password = ''abcdef'',
        SignupCredentials.name = ''''\<rparr>"
      and stringify = Map.empty and now = 1700000000000 and failure = None
      and s = "\<lparr>AuthState.user = JNull, AuthState.isLoading = False, isAuthenticated = False,
       isInitializing = False\<rparr>" and kv = Map.empty]
  by simp

text \<open>
  Claim C8 as stated fails twice. The name \<open>J\<close> has length 1 and \<^verbatim>\<open>signup\<close> accepts
  it: the store checks only that the name is not the empty string. And on the empty name
  the failure comes after a change of the state: the first state that the call sets has
  \<^verbatim>\<open>isLoading\<close> true.
\<close>

theorem signup_accepts_short_name:
  \<open>fst (signup [\<lparr>id' = ''1700000000000'', User.email = ''jo@x.com'', User.name = ''J''\<rparr>
               \<mapsto> ''{"id":"1700000000000","email":"jo@x.com","name":"J"}'']
       1700000000000 None
       \<lparr>LoginCredentials.email = ''jo@x.com'', password = ''abcdef'', SignupCredentials.name = ''J''\<rparr>
       (\<lparr>AuthState.user = JNull, AuthState.isLoading = False, isAuthenticated = False,
         isInitializing = False\<rparr>, Map.empty))
     = \<lparr>success = True,
        AuthResponse.user =
          Some \<lparr>id' = ''1700000000000'', User.email = ''jo@x.com'', User.name = ''J''\<rparr>,
        error = None\<rparr>
   \<and> AuthState.isLoading (hd (fst (snd (signup Map.empty 1700000000000 None
       \<lparr>LoginCredentials.email = ''jo@x.com'', password = ''abcdef'', SignupCredentials.name = ''''\<rparr>
       (\<lparr>AuthState.user = JNull, AuthState.isLoading = False, isAuthenticated = False,
         isInitializing = False\<rparr>, Map.empty))))) = True\<close>
  by (simp add: signup_def signup_catch_def Let_def string_includes_def toString_example
      saveUserToStorage_def setItem_def)

text \<open>
  Claim C9 on the code. The id of a manufactured user is the reading of the clock, so two
  operations that read the same millisecond produce the same id: a login and a signup
  that both read 1700000000000 succeed with two users of id \<open>1700000000000\<close>.
\<close>

theorem same_clock_same_id:
  \<open>fst (login [\<lparr>id' = ''1700000000000'', User.email = ''a@b.com'', User.name = ''a''\<rparr>
               \<mapsto> ''{"id":"1700000000000","email":"a@b.com","name":"a"}'']
       1700000000000 None \<lparr>LoginCredentials.email = ''a@b.com'', password = ''x''\<rparr>
       (\<lparr>AuthState.user = JNull, AuthState.isLoading = False, isAuthenticated = False,
         isInitializing = False\<rparr>, Map.empty))
     = \<lparr>success = True,
        AuthResponse.user =
          Some \<lparr>id' = ''1700000000000'', User.email = ''a@b.com'', User.name = ''a''\<rparr>,
        error = None\<rparr>
   \<and> fst (signup [\<lparr>id' = ''1700000000000'', User.email = ''jo@x.com'', User.name = ''Jo''\<rparr>
               \<mapsto> ''{"id":"1700000000000","email":"jo@x.com","name":"Jo"}'']
       1700000000000 None
       \<lparr>LoginCredentials.email = ''jo@x.com'', password = ''abcdef'', SignupCredentials.name = ''Jo''\<rparr>
       (\<lparr>AuthState.user = JNull, AuthState.isLoading = True, isAuthenticated = False,
         isInitializing = False\<rparr>, Map.empty))
     = \<lparr>success = True,
        AuthResponse.user =
          Some \<lparr>id' = ''1700000000000'', User.email = ''jo@x.com'', User.name = ''Jo''\<rparr>,
        error = None\<rparr>\<close>
  by (simp add: login_def signup_def Let_def string_includes_def toString_example
      saveUserToStorage_def setItem_def)

text \<open>
  Claim C4, as the code has it. \<^verbatim>\<open>logout\<close> always resolves, also when the removal
  fails, and its one update resets the state to no user, not authenticated, not loading
  and not initializing. A removal that succeeds leaves the store without the auth key; a
  removal that fails is swallowed and leaves the store as it was. A second \<^verbatim>\<open>logout\<close>
  right after the first resolves too and sets the same state, and after a removal that
  succeeded it leaves the store as the first did. After a \<^verbatim>\<open>logout\<close> whose removal
  succeeded, a restore from the initial state ends with no user and not authenticated,
  whatever the read does.
\<close>

theorem logout_resets:
  "logout failure (s, kv) =
     (Resolved (),
      [\<lparr>AuthState.user = JNull, AuthState.isLoading = False, isAuthenticated = False,
        isInitializing = False\<rparr>],
      case failure of None \<Rightarrow> kv(AUTH_USER_KEY := None) | Some e \<Rightarrow> kv)
   \<and> snd (snd (logout None (s, kv))) AUTH_USER_KEY = None
   \<and> snd (snd (logout (Some e) (s, kv))) = kv
   \<and> fst (logout failure2
        (final s (fst (snd (logout failure (s, kv)))), snd (snd (logout failure (s, kv)))))
      = Resolved ()
   \<and> fst (snd (logout failure2
        (final s (fst (snd (logout failure (s, kv)))), snd (snd (logout failure (s, kv))))))
      = [\<lparr>AuthState.user = JNull, AuthState.isLoading = False, isAuthenticated = False,
           isInitializing = False\<rparr>]
   \<and> snd (snd (logout None
        (final s (fst (snd (logout None (s, kv)))), snd (snd (logout None (s, kv))))))
      = snd (snd (logout None (s, kv)))
   \<and> initializeAuth parse readFailure (snd (snd (logout None (s, kv)))) initialAuthState
      = \<lparr>AuthState.user = JNull, AuthState.isLoading = False, isAuthenticated = False,
         isInitializing = False\<rparr>"
proof -
  have restore: "initializeAuth parse readFailure (kv(AUTH_USER_KEY := None)) initialAuthState
      = \<lparr>AuthState.user = JNull, AuthState.isLoading = False, isAuthenticated = False,
         isInitializing = False\<rparr>"
    by (simp add: initializeAuth_def loadUserFromStorage_def getItem_def initialAuthState_def
        split: option.splits)
  show ?thesis
    using restore by (simp add: logout_eq)
qed

text \<open>
  A logged-in session with its stored record: a logout whose removal succeeds empties the
  store; a logout whose removal fails resolves all the same and keeps the record.
\<close>

theorem logout_resets_witness:
  \<open>logout None
     (\<lparr>AuthState.user = JObject [(''id'', JString ''1700000000000''),
         (''email'', JString ''a@b.com''), (''name'', JString ''a'')],
       AuthState.isLoading = False, isAuthenticated = True, isInitializing = False\<rparr>,
      [AUTH_USER_KEY \<mapsto> ''{"id":"1700000000000","email":"a@b.com","name":"a"}''])
   = (Resolved (),
      [\<lparr>AuthState.user = JNull, AuthState.isLoading = False, isAuthenticated = False,
        isInitializing = False\<rparr>],
      Map.empty)
   \<and> logout (Some (Error ''remove failed''))
     (\<lparr>AuthState.user = JObject [(''id'', JString ''1700000000000''),
         (''email'', JString ''a@b.com''), (''name'', JString ''a'')],
       AuthState.isLoading = False, isAuthenticated = True, isInitializing = False\<rparr>,
      [AUTH_USER_KEY \<mapsto> ''{"id":"1700000000000","email":"a@b.com","name":"a"}''])
   = (Resolved (),
      [\<lparr>AuthState.user = JNull, AuthState.isLoading = False, isAuthenticated = False,
        isInitializing = False\<rparr>],
      [AUTH_USER_KEY \<mapsto> ''{"id":"1700000000000","email":"a@b.com","name":"a"}''])\<close>
  using logout_resets [where failure = None
      and s = "\<lparr>AuthState.user = JObject [(''id'', JString ''1700000000000''),
         (''email'', JString ''a@b.com''), (''name'', JString ''a'')],
       AuthState.isLoading = False, isAuthenticated = True, isInitializing = False\<rparr>"
      and kv = \<open>[AUTH_USER_KEY \<mapsto> ''{"id":"1700000000000","email":"a@b.com","name":"a"}'']\<close>]
    logout_resets [where failure = "Some (Error ''remove failed'')"
      and s = "\<lparr>AuthState.user = JObject [(''id'', JString ''1700000000000''),
         (''email'', JString ''a@b.com''), (''name'', JString ''a'')],
       AuthState.isLoading = False, isAuthenticated = True, isInitializing = False\<rparr>"
      and kv = \<open>[AUTH_USER_KEY \<mapsto> ''{"id":"1700000000000","email":"a@b.com","name":"a"}'']\<close>]
  by simp

text \<open>
  Claim C4 as stated fails when the removal fails: the stored record is still under the
  auth key after \<^verbatim>\<open>logout\<close>, and the next restore reads it and ends authenticated.
\<close>

theorem logout_failed_remove_keeps_record:
  \<open>snd (snd (logout (Some (Error ''remove failed''))
     (\<lparr>AuthState.user = JObject [(''id'', JString ''1700000000000''),
         (''email'', JString ''a@b.com''), (''name'', JString ''a'')],
       AuthState.isLoading = False, isAuthenticated = True, isInitializing = False\<rparr>,
      [AUTH_USER_KEY \<mapsto> ''{"id":"1700000000000","email":"a@b.com","name":"a"}'']))) AUTH_USER_KEY
   = Some ''{"id":"1700000000000","email":"a@b.com","name":"a"}''
   \<and> isAuthenticated (initializeAuth
       [''{"id":"1700000000000","email":"a@b.com","name":"a"}'' \<mapsto>
          JObject [(''id'', JString ''1700000000000''),
            (''email'', JString ''a@b.com''), (''name'', JString ''a'')]]
       None
       (snd (snd (logout (Some (Error ''remove failed''))
         (\<lparr>AuthState.user = JObject [(''id'', JString ''1700000000000''),
             (''email'', JString ''a@b.com''), (''name'', JString ''a'')],
           AuthState.isLoading = False, isAuthenticated = True, isInitializing = False\<rparr>,
          [AUTH_USER_KEY \<mapsto> ''{"id":"1700000000000","email":"a@b.com","name":"a"}'']))))
       initialAuthState) = True\<close>
  by (simp add: logout_def clearAuthStorage_eq initializeAuth_def loadUserFromStorage_def
      getItem_def)

section \<open>Startup restore\<close>

text \<open>
  Claim C10. The restore does not look at the shape of what it reads. When the read
  succeeds, the restore adopts the parsed value as the user and sets
  \<^verbatim>\<open>isAuthenticated\<close> exactly when there is a string under the auth key and
  \<^verbatim>\<open>JSON.parse\<close> returns a truthy value for it, whatever that value is; when the key is
  absent, when \<^verbatim>\<open>JSON.parse\<close> throws, or when the parsed value is falsy, it only clears
  \<^verbatim>\<open>isInitializing\<close>, which from the initial state is the unauthenticated state.
  \<^verbatim>\<open>JSON.parse\<close> throws on the empty string, which is the one fact about it that is
  assumed.
\<close>

theorem restore_adopts_truthy_value:
  assumes "parse [] = None"
  shows "initializeAuth parse None kv prev =
     (case kv AUTH_USER_KEY of
        None \<Rightarrow> prev\<lparr>isInitializing := False\<rparr>
      | Some userData \<Rightarrow>
          (case parse userData of
             None \<Rightarrow> prev\<lparr>isInitializing := False\<rparr>
           | Some v \<Rightarrow>
               if truthy v then
                 \<lparr>AuthState.user = v, AuthState.isLoading = False, isAuthenticated = True,
                  isInitializing = False\<rparr>
               else prev\<lparr>isInitializing := False\<rparr>))"
  using assms
  by (simp add: initializeAuth_def loadUserFromStorage_def getItem_def split: option.splits)

text \<open>
  A stored number and a stored empty array are adopted as the user; a stored zero and a
  text that does not parse leave the state unauthenticated.
\<close>

theorem restore_adopts_truthy_value_witness:
  "initializeAuth [''42'' \<mapsto> JNumber (Finite 42)] None [AUTH_USER_KEY \<mapsto> ''42'']
     initialAuthState
   = \<lparr>AuthState.user = JNumber (Finite 42), AuthState.isLoading = False,
      isAuthenticated = True, isInitializing = False\<rparr>
   \<and> initializeAuth [''[]'' \<mapsto> JArray []] None [AUTH_USER_KEY \<mapsto> ''[]''] initialAuthState
   = \<lparr>AuthState.user = JArray [], AuthState.isLoading = False,
      isAuthenticated = True, isInitializing = False\<rparr>
   \<and> initializeAuth [''0'' \<mapsto> JNumber (Finite 0)] None [AUTH_USER_KEY \<mapsto> ''0'']
     initialAuthState
   = \<lparr>AuthState.user = JNull, AuthState.isLoading = False,
      isAuthenticated = False, isInitializing = False\<rparr>
   \<and> initializeAuth Map.empty None [AUTH_USER_KEY \<mapsto> ''{id:'']
     initialAuthState
   = \<lparr>AuthState.user = JNull, AuthState.isLoading = False,
      isAuthenticated = False, isInitializing = False\<rparr>"
  using restore_adopts_truthy_value [where parse = "[''42'' \<mapsto> JNumber (Finite 42)]"
      and kv = "[AUTH_USER_KEY \<mapsto> ''42'']" and prev = initialAuthState]
    restore_adopts_truthy_value [where parse = "[''[]'' \<mapsto> JArray []]"
      and kv = "[AUTH_USER_KEY \<mapsto> ''[]'']" and prev = initialAuthState]
    restore_adopts_truthy_value [where parse = "[''0'' \<mapsto> JNumber (Finite 0)]"
      and kv = "[AUTH_USER_KEY \<mapsto> ''0'']" and prev = initialAuthState]
    restore_adopts_truthy_value [where parse = "Map.empty"
      and kv = "[AUTH_USER_KEY \<mapsto> ''{id:'']" and prev = initialAuthState]
  by (simp add: initialAuthState_def)

text \<open>
  Claim C3. Whatever the read does (a value, no value, or a failure), the restore of the
  session store ends with \<^verbatim>\<open>isInitializing\<close> false and the restore of the preference
  store ends with \<^verbatim>\<open>isLoading\<close> false. When the read fails, the session store keeps the
  user and the flag \<^verbatim>\<open>isAuthenticated\<close> it had, so from the initial state it resolves
  to no user and not authenticated; the preference store keeps its theme, so from the
  initial state it stays light.
\<close>

theorem restore_clears_flags:
  "isInitializing (initializeAuth parse failure kv prev) = False
   \<and> ThemeState.isLoading (loadTheme failure kv t) = False
   \<and> initializeAuth parse (Some e) kv prev = prev\<lparr>isInitializing := False\<rparr>
   \<and> initializeAuth parse (Some e) kv initialAuthState
       = \<lparr>AuthState.user = JNull, AuthState.isLoading = False, isAuthenticated = False,
          isInitializing = False\<rparr>
   \<and> loadTheme (Some e) kv t = t\<lparr>ThemeState.isLoading := False\<rparr>
   \<and> loadTheme (Some e) kv initialThemeState = \<lparr>theme = light, ThemeState.isLoading = False\<rparr>"
proof -
  have a: "isInitializing (initializeAuth parse failure kv prev) = False"
    by (simp add: initializeAuth_def split: promise.splits)
  have b: "ThemeState.isLoading (loadTheme failure kv t) = False"
    by (simp add: loadTheme_def)
  have c: "initializeAuth parse (Some e) kv prev = prev\<lparr>isInitializing := False\<rparr>" for prev
    by (simp add: initializeAuth_def loadUserFromStorage_failure)
  have d: "loadTheme (Some e) kv t = t\<lparr>ThemeState.isLoading := False\<rparr>" for t
    by (simp add: loadTheme_def getItem_def)
  show ?thesis
    using a b c [of prev] c [of initialAuthState] d [of t] d [of initialThemeState]
    by (simp add: initialAuthState_def initialThemeState_def)
qed

theorem restore_clears_flags_witness:
  "isInitializing (initializeAuth Map.empty None Map.empty initialAuthState) = False
   \<and> ThemeState.isLoading (loadTheme None [THEME_STORAGE_KEY \<mapsto> ''dark''] initialThemeState)
       = False
   \<and> AuthState.user (initializeAuth Map.empty (Some (Error ''read failed''))
        [AUTH_USER_KEY \<mapsto> ''1''] initialAuthState) = JNull
   \<and> isAuthenticated (initializeAuth Map.empty (Some (Error ''read failed''))
        [AUTH_USER_KEY \<mapsto> ''1''] initialAuthState) = False
   \<and> theme (loadTheme (Some (Error ''read failed'')) [THEME_STORAGE_KEY \<mapsto> ''dark'']
        initialThemeState) = light"
  using restore_clears_flags [where parse = Map.empty and failure = None and kv = Map.empty
      and prev = initialAuthState and t = initialThemeState and e = "Error ''read failed''"]
    restore_clears_flags [where parse = Map.empty and failure = None
      and kv = "[THEME_STORAGE_KEY \<mapsto> ''dark'']"
      and prev = initialAuthState and t = initialThemeState and e = "Error ''read failed''"]
    restore_clears_flags [where parse = Map.empty and failure = None
      and kv = "[AUTH_USER_KEY \<mapsto> ''1'']"
      and prev = initialAuthState and t = initialThemeState and e = "Error ''read failed''"]
  by (simp add: initialAuthState_def initialThemeState_def)

section \<open>The preference store\<close>




end
